theory Spec2Isabelle
  imports Main "HOL-Library.AList"
begin

section \<open>Mapped objects of \<^verbatim>\<open>porydex/db/schema/pokemon.py\<close>\<close>

text \<open>
  An object of a mapped class is a record with one field per column, under the column's
  own name. Classes that share a column name share the field name, so a field is written
  with its class in front, as the source's join conditions do:
  \<^verbatim>\<open>PokemonForm.pokemon_id == GenerationPokemonForm.pokemon_id\<close>.
  Integer columns are Python's unbounded integers; a nullable column is an option.
\<close>

record Pokemon =
  id :: int
  "identifier" :: string
  preevolution_id :: "int option"
  order :: int

record PokemonName =
  language_id :: int
  pokemon_id :: int
  name :: string

record PokemonForm =
  pokemon_id :: int
  form_id :: int
  "identifier" :: string
  is_default :: bool
  order :: int

text \<open>The column of \<^verbatim>\<open>PokemonFormName.name\<close> is named \<^verbatim>\<open>form_name\<close> in the table.\<close>

record PokemonFormName =
  language_id :: int
  pokemon_id :: int
  form_id :: int
  name :: string
  full_name :: string

text \<open>
  \<^verbatim>\<open>GenerationPokemonForm.types\<close> is a relationship to \<^verbatim>\<open>Type\<close> through the join table
  \<^verbatim>\<open>pokemon_types\<close>, ordered by \<^verbatim>\<open>PokemonType.slot\<close>. Neither \<^verbatim>\<open>Type\<close> nor \<^verbatim>\<open>PokemonType\<close> is
  declared in this module, so the loaded relationship is carried by the row: the ids of
  the row's types, in slot order.
\<close>

record GenerationPokemonForm =
  generation_id :: int
  pokemon_id :: int
  form_id :: int
  types :: "int list"

text \<open>
  The session the mapped objects belong to. The module reads one attribute of it,
  \<^verbatim>\<open>sa.orm.session.object_session(self).generation_id\<close>, which is \<^verbatim>\<open>None\<close> when no
  generation is set.
\<close>

record Session =
  generation_id :: "int option"

text \<open>The rows the session loads the objects from, table by table.\<close>

record database =
  pokemon_names :: "PokemonName list"
  pokemon_forms :: "PokemonForm list"
  pokemon_form_names :: "PokemonFormName list"
  generation_pokemon_forms :: "GenerationPokemonForm list"

datatype error = ValueError | NotFound | IntegrityError

text \<open>
  The first two conjuncts of the \<^verbatim>\<open>primaryjoin\<close> of \<^verbatim>\<open>PokemonForm._current_gpf\<close>, which are
  also the two \<^verbatim>\<open>where\<close> clauses of the scalar subquery \<^verbatim>\<open>latest_gen\<close>.
\<close>

definition same_form :: "PokemonForm \<Rightarrow> GenerationPokemonForm \<Rightarrow> bool" where
  "same_form self r \<longleftrightarrow>
     PokemonForm.pokemon_id self = GenerationPokemonForm.pokemon_id r \<and>
     PokemonForm.form_id self = GenerationPokemonForm.form_id r"

text \<open>
  The primary key of \<^verbatim>\<open>generation_pokemon_forms\<close>: the three columns declared with
  \<^verbatim>\<open>primary_key=True\<close>.
\<close>

definition gpf_key :: "GenerationPokemonForm \<Rightarrow> int \<times> int \<times> int" where
  "gpf_key r =
     (GenerationPokemonForm.generation_id r, GenerationPokemonForm.pokemon_id r,
      GenerationPokemonForm.form_id r)"

definition gpf_primary_key :: "database \<Rightarrow> bool" where
  "gpf_primary_key db \<longleftrightarrow> distinct (map gpf_key (generation_pokemon_forms db))"

subsection \<open>The current generation, in memory\<close>

text \<open>
  Modelled from the spec: \<^verbatim>\<open>PokemonForm._by_generation\<close> is declared by the mixin
  \<^verbatim>\<open>ExistsByGeneration\<close> of \<^verbatim>\<open>porydex/db/util.py\<close>, which is not among the sources. The
  module names its class (\<^verbatim>\<open>_by_generation_class_name = 'GenerationPokemonForm'\<close>), calls
  \<^verbatim>\<open>.keys()\<close> on it and documents the greatest key as "the latest generation this
  Pokemon form was in"; the spec calls it the form's per-generation appearance records.
  It is the ordered dictionary of the form's \<^verbatim>\<open>GenerationPokemonForm\<close> rows keyed by
  \<^verbatim>\<open>generation_id\<close>: an association list with one entry per key, a later row with the
  same key replacing the entry, as an assignment to a dictionary does.
\<close>

definition by_generation ::
    "database \<Rightarrow> PokemonForm \<Rightarrow> (int \<times> GenerationPokemonForm) list" where
  "by_generation db self =
     fold (\<lambda>r d. AList.update (GenerationPokemonForm.generation_id r) r d)
       (filter (same_form self) (generation_pokemon_forms db)) []"

text \<open>Python's \<^verbatim>\<open>max\<close> of an iterable: \<^verbatim>\<open>ValueError\<close> on an empty one.\<close>

fun py_max :: "int list \<Rightarrow> error + int" where
  "py_max [] = Inl ValueError"
| "py_max (x # xs) = Inr (fold max xs x)"

text \<open>
  \<^verbatim>\<open>PokemonForm._current_generation_id\<close>, the instance side of the hybrid property.
\<close>

definition PokemonForm_current_generation_id ::
    "Session \<Rightarrow> database \<Rightarrow> PokemonForm \<Rightarrow> error + int" where
  "PokemonForm_current_generation_id s db self =
     (case Session.generation_id s of
        Some generation_id' \<Rightarrow> Inr generation_id'
      | None \<Rightarrow> py_max (map fst (by_generation db self)))"

subsection \<open>The current generation, as an SQL expression\<close>

text \<open>
  SQL's aggregate \<^verbatim>\<open>max\<close> over the rows a query selects (\<^verbatim>\<open>NULL\<close>, here \<open>None\<close>, over no
  row; the column is part of a primary key and holds no \<^verbatim>\<open>NULL\<close>), and \<^verbatim>\<open>coalesce\<close> of two
  arguments: the first that is not \<^verbatim>\<open>NULL\<close>.
\<close>

fun sql_max :: "int list \<Rightarrow> int option" where
  "sql_max [] = None"
| "sql_max (x # xs) = Some (fold max xs x)"

fun coalesce :: "'a option \<Rightarrow> 'a option \<Rightarrow> 'a option" where
  "coalesce (Some a) b = Some a"
| "coalesce None b = b"

text \<open>
  \<^verbatim>\<open>latest_gen\<close>: the scalar subquery
  \<^verbatim>\<open>select max(generation_id) from generation_pokemon_forms where pokemon_id = ... and form_id = ...\<close>,
  correlated to the row of \<^verbatim>\<open>pokemon_forms\<close>.
\<close>

definition latest_gen :: "database \<Rightarrow> PokemonForm \<Rightarrow> int option" where
  "latest_gen db class_row =
     sql_max (map GenerationPokemonForm.generation_id
       (filter (same_form class_row) (generation_pokemon_forms db)))"

text \<open>
  The class side of the hybrid property,
  \<^verbatim>\<open>coalesce(:session_generation_id, latest_gen)\<close>. The bind parameter
  \<^verbatim>\<open>session_generation_id\<close> is supplied when the statement is executed; it is the
  first argument.
\<close>

definition PokemonForm_current_generation_id_expression ::
    "int option \<Rightarrow> database \<Rightarrow> PokemonForm \<Rightarrow> int option" where
  "PokemonForm_current_generation_id_expression session_gen db class_row =
     coalesce session_gen (latest_gen db class_row)"

subsection \<open>The accessors\<close>

text \<open>
  \<^verbatim>\<open>PokemonForm._current_gpf\<close>: a relationship with \<^verbatim>\<open>uselist=False\<close>, loaded by a query
  whose join condition is the \<^verbatim>\<open>primaryjoin\<close>. The condition is built from the class, so
  its third conjunct compares the SQL expression of the hybrid property with the row's
  \<^verbatim>\<open>generation_id\<close>; a comparison with \<^verbatim>\<open>NULL\<close> selects no row. The session binds
  \<^verbatim>\<open>session_generation_id\<close> to its own \<^verbatim>\<open>generation_id\<close>. The attribute is the row
  selected, or \<^verbatim>\<open>None\<close>.
\<close>

definition PokemonForm_current_gpf ::
    "Session \<Rightarrow> database \<Rightarrow> PokemonForm \<Rightarrow> GenerationPokemonForm option" where
  "PokemonForm_current_gpf s db self =
     find (\<lambda>r. same_form self r \<and>
               PokemonForm_current_generation_id_expression (Session.generation_id s) db self =
                 Some (GenerationPokemonForm.generation_id r))
       (generation_pokemon_forms db)"

text \<open>
  \<^verbatim>\<open>types = association_proxy('_current_gpf', 'types')\<close>: a proxy over a scalar
  relationship, which reads the attribute of the target and is \<^verbatim>\<open>None\<close> when the target is
  \<^verbatim>\<open>None\<close>.
\<close>

definition PokemonForm_types :: "Session \<Rightarrow> database \<Rightarrow> PokemonForm \<Rightarrow> int list option" where
  "PokemonForm_types s db self =
     map_option GenerationPokemonForm.types (PokemonForm_current_gpf s db self)"

text \<open>
  \<^verbatim>\<open>all_types = association_proxy('_by_generation', 'types')\<close>: a proxy over a dictionary,
  which keeps the keys and reads the attribute of every value. The session is an argument
  as for every attribute that is loaded through it; the join of \<^verbatim>\<open>_by_generation\<close> does not
  mention the session's generation.
\<close>

definition PokemonForm_all_types ::
    "Session \<Rightarrow> database \<Rightarrow> PokemonForm \<Rightarrow> (int \<times> int list) list" where
  "PokemonForm_all_types s db self =
     map (\<lambda>(g, r). (g, GenerationPokemonForm.types r)) (by_generation db self)"

subsection \<open>Names by language\<close>






section \<open>The declared schema\<close>

text \<open>
  The classes of the module are declarations read by SQLAlchemy's declarative extension.
  What a class declares is its body: a list of attributes by name. The extension reads
  the table's name from \<^verbatim>\<open>__tablename__\<close>, its columns from the \<^verbatim>\<open>sa.Column\<close> attributes and
  its table-level constraints from \<^verbatim>\<open>__table_args__\<close>; it reads no other attribute.
\<close>

datatype sa_type = Integer | Unicode | Text | Boolean

text \<open>
  \<^verbatim>\<open>sa.Column(type, sa.ForeignKey('table.column'), primary_key=, unique=, nullable=,
  autoincrement=)\<close>. \<open>column\<close> has SQLAlchemy's defaults for the keyword arguments; a column
  of the primary key is not nullable whatever \<^verbatim>\<open>nullable\<close> says. \<^verbatim>\<open>autoincrement\<close> is \<open>True\<close>
  for the default \<^verbatim>\<open>'auto'\<close> and \<open>False\<close> where the source passes \<^verbatim>\<open>autoincrement=False\<close>.
\<close>

record Column =
  name :: string
  type' :: sa_type
  foreign_key :: "(string \<times> string) option"
  primary_key :: bool
  unique :: bool
  nullable :: bool
  autoincrement :: bool

definition column :: "string \<Rightarrow> sa_type \<Rightarrow> (string \<times> string) option \<Rightarrow> Column" where
  "column n t fk =
     \<lparr>Column.name = n, type' = t, foreign_key = fk, primary_key = False, unique = False,
      nullable = True, autoincrement = True\<rparr>"

text \<open>
  \<^verbatim>\<open>sa.ForeignKeyConstraint(columns, refcolumns)\<close>, every \<^verbatim>\<open>'table.column'\<close> of \<^verbatim>\<open>refcolumns\<close>
  split at the dot.
\<close>

datatype constraint = ForeignKeyConstraint "string list" "(string \<times> string) list"

datatype attribute =
  Str string
| Col Column
| Args "constraint list"
| Relationship
| Proxy
| Hybrid

type_synonym mapped_class = "(string \<times> attribute) list"

subsection \<open>Convenience functions for common foreign keys\<close>

definition pokemon_form_key :: constraint where
  "pokemon_form_key =
     ForeignKeyConstraint [''pokemon_id'', ''form_id'']
       [(''pokemon_forms'', ''pokemon_id''), (''pokemon_forms'', ''form_id'')]"

definition generation_pokemon_key :: constraint where
  "generation_pokemon_key =
     ForeignKeyConstraint [''generation_id'', ''pokemon_id'']
       [(''generation_pokemon'', ''generation_id''), (''generation_pokemon'', ''pokemon_id'')]"

definition generation_pokemon_form_key :: constraint where
  "generation_pokemon_form_key =
     ForeignKeyConstraint [''generation_id'', ''pokemon_id'', ''form_id'']
       [(''generation_pokemon_forms'', ''generation_id''),
        (''generation_pokemon_forms'', ''pokemon_id''),
        (''generation_pokemon_forms'', ''form_id'')]"

subsection \<open>The class bodies\<close>

definition Pokemon_class :: mapped_class where
  "Pokemon_class =
    [(''__tablename__'', Str ''pokemon''),
     (''_by_generation_class_name'', Str ''GenerationPokemon''),
     (''_by_language_class_name'', Str ''PokemonName''),
     (''id'', Col ((column ''id'' Integer None)\<lparr>primary_key := True\<rparr>)),
     (''identifier'', Col ((column ''identifier'' Unicode None)\<lparr>unique := True, nullable := False\<rparr>)),
     (''preevolution_id'', Col (column ''preevolution_id'' Integer (Some (''pokemon'', ''id'')))),
     (''order'', Col ((column ''order'' Integer None)\<lparr>unique := True, nullable := False\<rparr>))]"

definition PokemonName_class :: mapped_class where
  "PokemonName_class =
    [(''__tablename__'', Str ''pokemon_names''),
     (''language_id'',
        Col ((column ''language_id'' Integer (Some (''languages'', ''id'')))\<lparr>primary_key := True\<rparr>)),
     (''pokemon_id'',
        Col ((column ''pokemon_id'' Integer (Some (''pokemon'', ''id'')))\<lparr>primary_key := True\<rparr>)),
     (''name'', Col ((column ''name'' Text None)\<lparr>nullable := False\<rparr>))]"

definition PokemonForm_class :: mapped_class where
  "PokemonForm_class =
    [(''__tablename__'', Str ''pokemon_forms''),
     (''_by_generation_class_name'', Str ''GenerationPokemonForm''),
     (''_by_language_class_name'', Str ''PokemonFormName''),
     (''pokemon_id'',
        Col ((column ''pokemon_id'' Integer (Some (''pokemon'', ''id'')))\<lparr>primary_key := True\<rparr>)),
     (''form_id'', Col ((column ''form_id'' Integer None)\<lparr>primary_key := True\<rparr>)),
     (''identifier'', Col ((column ''identifier'' Unicode None)\<lparr>unique := True, nullable := False\<rparr>)),
     (''is_default'', Col ((column ''is_default'' Boolean None)\<lparr>nullable := False\<rparr>)),
     (''order'', Col ((column ''order'' Integer None)\<lparr>unique := True, nullable := False\<rparr>)),
     (''full_name'', Proxy),
     (''_current_gpf'', Relationship),
     (''types'', Proxy),
     (''all_types'', Proxy),
     (''_current_generation_id'', Hybrid)]"

definition PokemonFormName_class :: mapped_class where
  "PokemonFormName_class =
    [(''__tablename__'', Str ''pokemon_form_names''),
     (''__table_args__'', Args [pokemon_form_key]),
     (''language_id'',
        Col ((column ''language_id'' Integer (Some (''languages'', ''id'')))\<lparr>primary_key := True\<rparr>)),
     (''pokemon_id'', Col ((column ''pokemon_id'' Integer None)\<lparr>primary_key := True\<rparr>)),
     (''form_id'', Col ((column ''form_id'' Integer None)\<lparr>primary_key := True\<rparr>)),
     (''name'', Col ((column ''form_name'' Text None)\<lparr>nullable := False\<rparr>)),
     (''full_name'', Col ((column ''full_name'' Text None)\<lparr>nullable := False\<rparr>))]"

definition GenerationPokemon_class :: mapped_class where
  "GenerationPokemon_class =
    [(''__tablename__'', Str ''generation_pokemon''),
     (''generation_id'',
        Col ((column ''generation_id'' Integer (Some (''generations'', ''id'')))\<lparr>primary_key := True\<rparr>)),
     (''pokemon_id'',
        Col ((column ''pokemon_id'' Integer (Some (''pokemon'', ''id'')))\<lparr>primary_key := True\<rparr>))]"

definition GenerationPokemonForm_class :: mapped_class where
  "GenerationPokemonForm_class =
    [(''__tablename__'', Str ''generation_pokemon_forms''),
     (''__table_args__'', Args [pokemon_form_key, generation_pokemon_key]),
     (''generation_id'',
        Col ((column ''generation_id'' Integer (Some (''generations'', ''id'')))\<lparr>primary_key := True\<rparr>)),
     (''pokemon_id'',
        Col ((column ''pokemon_id'' Integer None)\<lparr>primary_key := True, autoincrement := False\<rparr>)),
     (''form_id'',
        Col ((column ''form_id'' Integer None)\<lparr>primary_key := True, autoincrement := False\<rparr>)),
     (''types'', Relationship)]"

text \<open>
  The body of \<^verbatim>\<open>GamePokemonForm\<close> names its constraints \<^verbatim>\<open>__tableargs__\<close>, as the source
  spells the attribute.
\<close>

definition GamePokemonForm_class :: mapped_class where
  "GamePokemonForm_class =
    [(''__tablename__'', Str ''game_pokemon_forms''),
     (''__tableargs__'',
        Args [generation_pokemon_form_key,
              ForeignKeyConstraint [''game_id'', ''generation_id'']
                [(''games'', ''id''), (''games'', ''generation_id'')]]),
     (''game_id'',
        Col ((column ''game_id'' Integer (Some (''games'', ''id'')))\<lparr>primary_key := True\<rparr>)),
     (''pokemon_id'',
        Col ((column ''pokemon_id'' Integer None)\<lparr>primary_key := True, autoincrement := False\<rparr>)),
     (''form_id'',
        Col ((column ''form_id'' Integer None)\<lparr>primary_key := True, autoincrement := False\<rparr>)),
     (''generation_id'',
        Col ((column ''generation_id'' Integer (Some (''generations'', ''id'')))\<lparr>nullable := False\<rparr>)),
     (''ingame_internal_id'', Col ((column ''ingame_internal_id'' Integer None)\<lparr>nullable := True\<rparr>))]"

subsection \<open>What the declarative extension reads\<close>

definition tablename :: "mapped_class \<Rightarrow> string" where
  "tablename cls = (case map_of cls ''__tablename__'' of Some (Str n) \<Rightarrow> n | _ \<Rightarrow> [])"

definition table_args :: "mapped_class \<Rightarrow> constraint list" where
  "table_args cls = (case map_of cls ''__table_args__'' of Some (Args cs) \<Rightarrow> cs | _ \<Rightarrow> [])"

fun columns :: "mapped_class \<Rightarrow> Column list" where
  "columns [] = []"
| "columns ((a, Col c) # cls) = c # columns cls"
| "columns (_ # cls) = columns cls"

subsection \<open>The storage layer\<close>

text \<open>
  The tables are kept by a storage engine outside the module; the module's contract is
  that the engine enforces what the classes declare. The constraints name tables and
  columns, so here a row is untyped: it gives a value to column names
  (a column it does not mention is \<^verbatim>\<open>NULL\<close>), and the storage gives the rows of every table by
  the table's name, the collaborators' tables (\<^verbatim>\<open>languages\<close>, \<^verbatim>\<open>generations\<close>, \<^verbatim>\<open>games\<close>)
  included. An insert first gives a key to a row that leaves an autoincrementing primary
  key out: the single Integer column of a primary key, without foreign key and without
  \<^verbatim>\<open>autoincrement=False\<close> (of this module only \<^verbatim>\<open>Pokemon.id\<close>), gets the next integer after
  the keys in the table. The row is then accepted when every column holds a value of its
  type, no column of the primary key and no column declared \<^verbatim>\<open>nullable=False\<close> is \<^verbatim>\<open>NULL\<close>,
  the primary key and every \<^verbatim>\<open>unique\<close> column are new, and every foreign key whose columns
  are all not \<^verbatim>\<open>NULL\<close> finds a row of the table it references; otherwise the insert fails
  with an integrity error.
\<close>

datatype sql_value = SqlNull | SqlInt int | SqlText string | SqlBool bool

type_synonym row = "(string \<times> sql_value) list"

type_synonym storage = "string \<Rightarrow> row list"

definition cell :: "row \<Rightarrow> string \<Rightarrow> sql_value" where
  "cell r c = (case map_of r c of Some v \<Rightarrow> v | None \<Rightarrow> SqlNull)"

fun has_type :: "sa_type \<Rightarrow> sql_value \<Rightarrow> bool" where
  "has_type t SqlNull = True"
| "has_type t (SqlInt i) = (t = Integer)"
| "has_type t (SqlText s) = (t = Unicode \<or> t = Text)"
| "has_type t (SqlBool b) = (t = Boolean)"

definition references :: "storage \<Rightarrow> row \<Rightarrow> string list \<Rightarrow> (string \<times> string) list \<Rightarrow> bool" where
  "references st r cols refs =
     (if list_ex (\<lambda>c. cell r c = SqlNull) cols then True
      else (case refs of
              [] \<Rightarrow> True
            | (t, tc) # _ \<Rightarrow>
                list_ex (\<lambda>x. list_all (\<lambda>(c, (t', c')). cell x c' = cell r c) (zip cols refs))
                  (st t)))"

definition column_ok :: "storage \<Rightarrow> string \<Rightarrow> row \<Rightarrow> Column \<Rightarrow> bool" where
  "column_ok st tn r c =
     (has_type (type' c) (cell r (Column.name c)) \<and>
      (if cell r (Column.name c) = SqlNull then nullable c \<and> \<not> primary_key c
       else (if unique c
             then \<not> list_ex (\<lambda>x. cell x (Column.name c) = cell r (Column.name c)) (st tn)
             else True)) \<and>
      (case foreign_key c of
         None \<Rightarrow> True
       | Some ref \<Rightarrow> references st r [Column.name c] [ref]))"

definition primary_key_ok :: "storage \<Rightarrow> mapped_class \<Rightarrow> row \<Rightarrow> bool" where
  "primary_key_ok st cls r =
     (\<not> list_ex (\<lambda>x. list_all (\<lambda>c. cell x (Column.name c) = cell r (Column.name c))
                      (filter primary_key (columns cls)))
          (st (tablename cls)))"

fun constraint_ok :: "storage \<Rightarrow> row \<Rightarrow> constraint \<Rightarrow> bool" where
  "constraint_ok st r (ForeignKeyConstraint cols refs) = references st r cols refs"

definition accepts :: "mapped_class \<Rightarrow> storage \<Rightarrow> row \<Rightarrow> bool" where
  "accepts cls st r \<longleftrightarrow>
     list_all (column_ok st (tablename cls) r) (columns cls) \<and>
     primary_key_ok st cls r \<and>
     list_all (constraint_ok st r) (table_args cls)"

definition autoincrement_column :: "mapped_class \<Rightarrow> Column option" where
  "autoincrement_column cls =
     (case filter primary_key (columns cls) of
        [c] \<Rightarrow>
          (if autoincrement c \<and> type' c = Integer \<and> foreign_key c = None then Some c else None)
      | _ \<Rightarrow> None)"

definition next_key :: "row list \<Rightarrow> string \<Rightarrow> int" where
  "next_key rows n =
     1 + fold (\<lambda>x m. case cell x n of SqlInt i \<Rightarrow> max i m | _ \<Rightarrow> m) rows 0"

definition with_autoincrement :: "mapped_class \<Rightarrow> storage \<Rightarrow> row \<Rightarrow> row" where
  "with_autoincrement cls st r =
     (case autoincrement_column cls of
        None \<Rightarrow> r
      | Some c \<Rightarrow>
          (if cell r (Column.name c) = SqlNull
           then (Column.name c, SqlInt (next_key (st (tablename cls)) (Column.name c))) # r
           else r))"

definition insert_row :: "mapped_class \<Rightarrow> storage \<Rightarrow> row \<Rightarrow> error + storage" where
  "insert_row cls st r =
     (let r' = with_autoincrement cls st r
      in if accepts cls st r' then Inr (st(tablename cls := st (tablename cls) @ [r']))
         else Inl IntegrityError)"

subsection \<open>A small dataset\<close>

text \<open>
  Two generations, one game of generation 1, one species with its single form, present in
  generation 1.
\<close>

definition example_storage :: storage where
  "example_storage =
     (\<lambda>t. if t = ''generations'' then [[(''id'', SqlInt 1)], [(''id'', SqlInt 2)]]
          else if t = ''games'' then [[(''id'', SqlInt 1), (''generation_id'', SqlInt 1)]]
          else if t = ''pokemon'' then
            [[(''id'', SqlInt 35), (''identifier'', SqlText ''clefairy''), (''order'', SqlInt 35)]]
          else if t = ''pokemon_forms'' then
            [[(''pokemon_id'', SqlInt 35), (''form_id'', SqlInt 0),
              (''identifier'', SqlText ''clefairy''), (''is_default'', SqlBool True),
              (''order'', SqlInt 35)]]
          else if t = ''generation_pokemon'' then
            [[(''generation_id'', SqlInt 1), (''pokemon_id'', SqlInt 35)]]
          else if t = ''generation_pokemon_forms'' then
            [[(''generation_id'', SqlInt 1), (''pokemon_id'', SqlInt 35), (''form_id'', SqlInt 0)]]
          else [])"

definition game_form_row :: "int \<Rightarrow> int \<Rightarrow> int \<Rightarrow> int \<Rightarrow> row" where
  "game_form_row game pokemon form generation =
     [(''game_id'', SqlInt game), (''pokemon_id'', SqlInt pokemon), (''form_id'', SqlInt form),
      (''generation_id'', SqlInt generation)]"

section \<open>Fixtures\<close>

subsection \<open>The fixture of the spec's testable properties\<close>

text \<open>
  A form with \<^verbatim>\<open>GenerationPokemonForm\<close> rows in generations 1, 3 and 5 and the type lists
  \<open>T1 = [1]\<close>, \<open>T3 = [1, 3]\<close> and \<open>T5 = [18]\<close>, beside a row of another form in generation 6.
\<close>

definition example_form :: PokemonForm where
  "example_form =
     \<lparr>PokemonForm.pokemon_id = 35, form_id = 0, identifier = ''clefairy'',
      is_default = True, order = 35\<rparr>"

definition example_gpf :: "int \<Rightarrow> int list \<Rightarrow> GenerationPokemonForm" where
  "example_gpf g ts =
     \<lparr>GenerationPokemonForm.generation_id = g, pokemon_id = 35, form_id = 0, types = ts\<rparr>"

definition example_db :: database where
  "example_db =
     \<lparr>pokemon_names =
        [\<lparr>PokemonName.language_id = 1, pokemon_id = 35, name = ''Pippi''\<rparr>,
         \<lparr>PokemonName.language_id = 9, pokemon_id = 35, name = ''Clefairy''\<rparr>],
      pokemon_forms = [example_form],
      pokemon_form_names =
        [\<lparr>PokemonFormName.language_id = 9, pokemon_id = 35, form_id = 0, name = [],
          full_name = ''Clefairy''\<rparr>],
      generation_pokemon_forms =
        [example_gpf 1 [1],
         \<lparr>GenerationPokemonForm.generation_id = 6, pokemon_id = 36, form_id = 0, types = [18]\<rparr>,
         example_gpf 3 [1, 3], example_gpf 5 [18]]\<rparr>"


text \<open>A form of the same dataset that has no \<^verbatim>\<open>GenerationPokemonForm\<close> row.\<close>

definition example_form_without_rows :: PokemonForm where
  "example_form_without_rows =
     \<lparr>PokemonForm.pokemon_id = 37, form_id = 0, identifier = ''vulpix'',
      is_default = True, order = 37\<rparr>"

section \<open>Facts about the model\<close>

text \<open>
  The key that \<open>gpf_key\<close> reads off an object is the primary key the class declares.
\<close>

lemma generation_pokemon_form_primary_key:
  "map Column.name (filter primary_key (columns GenerationPokemonForm_class)) =
     [''generation_id'', ''pokemon_id'', ''form_id'']"
  by (simp add: GenerationPokemonForm_class_def column_def)

lemma find_unique_row:
  assumes "distinct (map k xs)" and "r \<in> set xs" and "\<And>x. x \<in> set xs \<Longrightarrow> P x \<longleftrightarrow> k x = k r"
  shows "find P xs = Some r"
  using assms
proof (induction xs)
  case Nil
  then show ?case by simp
next
  case (Cons a xs)
  show ?case
  proof (cases "a = r")
    case True
    with Cons.prems(3) [of a] show ?thesis by simp
  next
    case False
    with Cons.prems have in_tl: "r \<in> set xs" by simp
    from Cons.prems(1) in_tl have "k a \<noteq> k r" by auto
    with Cons.prems(3) [of a] have "\<not> P a" by simp
    moreover have "find P xs = Some r"
      using Cons.IH Cons.prems in_tl by simp
    ultimately show ?thesis by simp
  qed
qed

lemma fold_max_Max: "fold max xs (x::int) = Max (set (x # xs))"
  by (simp only: Max.set_eq_fold)

lemma sql_max_eq: "sql_max xs = (if xs = [] then None else Some (Max (set xs)))"
  by (cases xs) (simp_all add: fold_max_Max del: Max.set_eq_fold set_simps)

lemma py_max_eq: "py_max xs = (if xs = [] then Inl ValueError else Inr (Max (set xs)))"
  by (cases xs) (simp_all add: fold_max_Max del: Max.set_eq_fold set_simps)

lemma same_form_gpf_key:
  "same_form self r \<Longrightarrow> same_form self x \<Longrightarrow>
     gpf_key x = gpf_key r \<longleftrightarrow> GenerationPokemonForm.generation_id x = GenerationPokemonForm.generation_id r"
  by (auto simp: same_form_def gpf_key_def)

lemma distinct_generations:
  assumes "gpf_primary_key db"
  shows "distinct (map GenerationPokemonForm.generation_id
           (filter (same_form self) (generation_pokemon_forms db)))"
proof -
  let ?ys = "filter (same_form self) (generation_pokemon_forms db)"
  have d: "distinct (map gpf_key ?ys)"
    using assms by (simp add: gpf_primary_key_def distinct_map_filter)
  have "inj_on GenerationPokemonForm.generation_id (set ?ys)"
  proof (rule inj_onI)
    fix x y assume "x \<in> set ?ys" "y \<in> set ?ys"
      and e: "GenerationPokemonForm.generation_id x = GenerationPokemonForm.generation_id y"
    then have "gpf_key x = gpf_key y" using same_form_gpf_key [of self y x] by simp
    with d \<open>x \<in> set ?ys\<close> \<open>y \<in> set ?ys\<close> show "x = y"
      by (meson distinct_map inj_onD)
  qed
  moreover have "distinct ?ys" using d by (simp add: distinct_map)
  ultimately show ?thesis by (simp add: distinct_map)
qed

lemma latest_gen_eq:
  "latest_gen db self =
     (if filter (same_form self) (generation_pokemon_forms db) = [] then None
      else Some (Max (GenerationPokemonForm.generation_id `
             set (filter (same_form self) (generation_pokemon_forms db)))))"
  by (simp add: latest_gen_def sql_max_eq)

lemma current_gpf_row:
  assumes pk: "gpf_primary_key db"
    and r: "r \<in> set (generation_pokemon_forms db)" "same_form self r"
    and g: "PokemonForm_current_generation_id_expression (Session.generation_id s) db self =
              Some (GenerationPokemonForm.generation_id r)"
  shows "PokemonForm_current_gpf s db self = Some r"
  unfolding PokemonForm_current_gpf_def g
proof (rule find_unique_row [where k = gpf_key])
  show "distinct (map gpf_key (generation_pokemon_forms db))"
    using pk by (simp add: gpf_primary_key_def)
  show "r \<in> set (generation_pokemon_forms db)" by (rule r)
  fix x assume "x \<in> set (generation_pokemon_forms db)"
  show "(same_form self x \<and>
          Some (GenerationPokemonForm.generation_id r) = Some (GenerationPokemonForm.generation_id x)) =
        (gpf_key x = gpf_key r)"
    using r(2) by (auto simp: same_form_def gpf_key_def)
qed

lemma latest_gen_greatest:
  assumes r: "r \<in> set (generation_pokemon_forms db)" "same_form self r"
    and top: "\<forall>x \<in> set (generation_pokemon_forms db). same_form self x \<longrightarrow>
                GenerationPokemonForm.generation_id x \<le> GenerationPokemonForm.generation_id r"
  shows "latest_gen db self = Some (GenerationPokemonForm.generation_id r)"
proof -
  let ?ys = "filter (same_form self) (generation_pokemon_forms db)"
  have ne: "?ys \<noteq> []" using r by (auto simp: filter_empty_conv)
  have "Max (GenerationPokemonForm.generation_id ` set ?ys) = GenerationPokemonForm.generation_id r"
    using r top by (intro Max_eqI) auto
  with ne show ?thesis by (simp add: latest_gen_eq)
qed

lemma fold_update_keys:
  "fst ` set (fold (\<lambda>r d. AList.update (k r) r d) xs d) = k ` set xs \<union> fst ` set d"
  by (induction xs arbitrary: d) (auto simp: dom_update)

lemma fold_update_distinct:
  "distinct (map fst d) \<Longrightarrow> distinct (map fst (fold (\<lambda>r d. AList.update (k r) r d) xs d))"
  by (induction xs arbitrary: d) (simp_all add: distinct_update)

lemma fold_update_other:
  "g \<notin> k ` set xs \<Longrightarrow> map_of (fold (\<lambda>r d. AList.update (k r) r d) xs d) g = map_of d g"
  by (induction xs arbitrary: d) (simp_all add: update_conv')

lemma fold_update_row:
  "distinct (map k xs) \<Longrightarrow> r \<in> set xs \<Longrightarrow>
     map_of (fold (\<lambda>r d. AList.update (k r) r d) xs d) (k r) = Some r"
proof (induction xs arbitrary: d)
  case Nil
  then show ?case by simp
next
  case (Cons x xs)
  show ?case
  proof (cases "r = x")
    case True
    with Cons.prems have "k r \<notin> k ` set xs" by auto
    with True show ?thesis by (simp add: fold_update_other update_conv')
  next
    case False
    with Cons show ?thesis by simp
  qed
qed

lemma by_generation_keys:
  "fst ` set (by_generation db self) =
     GenerationPokemonForm.generation_id ` set (filter (same_form self) (generation_pokemon_forms db))"
  by (simp add: by_generation_def fold_update_keys)

lemma by_generation_row:
  assumes "gpf_primary_key db" and "r \<in> set (generation_pokemon_forms db)" and "same_form self r"
  shows "map_of (by_generation db self) (GenerationPokemonForm.generation_id r) = Some r"
  unfolding by_generation_def
  using distinct_generations [OF assms(1), of self] assms(2,3)
  by (intro fold_update_row) simp_all

lemma by_generation_empty:
  "by_generation db self = [] \<longleftrightarrow> filter (same_form self) (generation_pokemon_forms db) = []"
  using by_generation_keys [of db self]
  by (metis image_is_empty set_empty)

lemma all_types_keys:
  "fst ` set (PokemonForm_all_types s db self) = fst ` set (by_generation db self)"
  by (force simp: PokemonForm_all_types_def)

lemma all_types_lookup:
  "map_of (PokemonForm_all_types s db self) g =
     map_option GenerationPokemonForm.types (map_of (by_generation db self) g)"
  by (simp add: PokemonForm_all_types_def map_of_map)

lemma paths_agree_on_generation:
  "PokemonForm_current_generation_id s db self = Inr g \<longleftrightarrow>
   PokemonForm_current_generation_id_expression (Session.generation_id s) db self = Some g"
proof (cases "Session.generation_id s")
  case (Some a)
  then show ?thesis
    by (simp add: PokemonForm_current_generation_id_def
        PokemonForm_current_generation_id_expression_def)
next
  case None
  have "set (map fst (by_generation db self)) =
      set (map GenerationPokemonForm.generation_id
        (filter (same_form self) (generation_pokemon_forms db)))"
    using by_generation_keys [of db self] by simp
  with None show ?thesis
    using by_generation_empty [of db self]
    by (simp add: PokemonForm_current_generation_id_def
        PokemonForm_current_generation_id_expression_def latest_gen_def py_max_eq sql_max_eq)
qed

lemma in_memory_raises:
  "PokemonForm_current_generation_id s db self = Inl e \<longleftrightarrow>
   e = ValueError \<and> Session.generation_id s = None \<and>
   filter (same_form self) (generation_pokemon_forms db) = []"
  using by_generation_empty [of db self]
  by (cases "Session.generation_id s")
     (auto simp: PokemonForm_current_generation_id_def py_max_eq)

text \<open>
  Only \<^verbatim>\<open>Pokemon.id\<close> autoincrements: a species inserted without an id gets the next one.
  The tables with a composite primary key take their rows as they are.
\<close>

lemma pokemon_id_autoincrements:
  "insert_row Pokemon_class example_storage
     [(''identifier'', SqlText ''clefable''), (''order'', SqlInt 36)] =
   Inr (example_storage(''pokemon'' := example_storage ''pokemon'' @
     [[(''id'', SqlInt 36), (''identifier'', SqlText ''clefable''), (''order'', SqlInt 36)]]))"
  by (simp add: insert_row_def with_autoincrement_def autoincrement_column_def next_key_def
      accepts_def table_args_def Pokemon_class_def column_def tablename_def column_ok_def
      primary_key_ok_def references_def cell_def example_storage_def)

lemma generation_pokemon_form_row_as_given:
  "with_autoincrement GenerationPokemonForm_class st r = r"
  by (simp add: with_autoincrement_def autoincrement_column_def GenerationPokemonForm_class_def
      column_def)

lemma game_pokemon_form_row_as_given:
  "with_autoincrement GamePokemonForm_class st r = r"
  "with_autoincrement ((a, Args cs) # GamePokemonForm_class) st r = r"
  by (simp_all add: with_autoincrement_def autoincrement_column_def GamePokemonForm_class_def
      column_def)

text \<open>
  What the declared schema enforces and what it leaves open. A row of
  \<^verbatim>\<open>generation_pokemon_forms\<close> needs its row of \<^verbatim>\<open>pokemon_forms\<close>: the class passes
  \<^verbatim>\<open>pokemon_form_key()\<close> in \<^verbatim>\<open>__table_args__\<close>.
\<close>

lemma generation_pokemon_form_needs_form:
  assumes "\<not> list_ex (\<lambda>x. cell x ''pokemon_id'' = cell r ''pokemon_id'' \<and>
                          cell x ''form_id'' = cell r ''form_id'') (st ''pokemon_forms'')"
  shows "insert_row GenerationPokemonForm_class st r = Inl IntegrityError"
proof -
  have "\<not> accepts GenerationPokemonForm_class st r"
  proof (cases "cell r ''pokemon_id'' = SqlNull \<or> cell r ''form_id'' = SqlNull")
    case True
    then show ?thesis
      by (auto simp: accepts_def GenerationPokemonForm_class_def column_def column_ok_def)
  next
    case False
    then have "\<not> constraint_ok st r pokemon_form_key"
      using assms by (simp add: pokemon_form_key_def references_def)
    then show ?thesis
      by (simp add: accepts_def table_args_def GenerationPokemonForm_class_def)
  qed
  then show ?thesis
    by (simp add: insert_row_def generation_pokemon_form_row_as_given)
qed

lemma generation_pokemon_form_rejected_example:
  "insert_row GenerationPokemonForm_class example_storage
     [(''generation_id'', SqlInt 1), (''pokemon_id'', SqlInt 999), (''form_id'', SqlInt 7)] =
   Inl IntegrityError"
  by (rule generation_pokemon_form_needs_form) (simp add: example_storage_def cell_def)

text \<open>
  The column \<^verbatim>\<open>is_default\<close> is a Boolean that is not nullable, and nothing else: whether a
  row of \<^verbatim>\<open>pokemon_forms\<close> is accepted does not depend on the value of \<^verbatim>\<open>is_default\<close>.
\<close>

lemma pokemon_form_accepts_any_is_default:
  "accepts PokemonForm_class st ((''is_default'', SqlBool b) # r) \<longleftrightarrow>
   accepts PokemonForm_class st ((''is_default'', SqlBool b') # r)"
  by (simp add: accepts_def table_args_def PokemonForm_class_def column_def tablename_def
      column_ok_def primary_key_ok_def references_def cell_def)

text \<open>
  The two constraints that the body of \<^verbatim>\<open>GamePokemonForm\<close> holds under \<^verbatim>\<open>__tableargs__\<close> would
  reject both rows if the extension read them: the same body with the attribute under the
  name \<^verbatim>\<open>__table_args__\<close> in front accepts neither the row of game 1 with generation 2 nor
  the row of the form (999, 7).
\<close>

lemma game_form_constraints_when_read:
  assumes "map_of GamePokemonForm_class ''__tableargs__'' = Some (Args cs)"
  shows "insert_row ((''__table_args__'', Args cs) # GamePokemonForm_class) example_storage
           (game_form_row 1 35 0 2) = Inl IntegrityError \<and>
         insert_row ((''__table_args__'', Args cs) # GamePokemonForm_class) example_storage
           (game_form_row 1 999 7 1) = Inl IntegrityError"
proof -
  have cs: "cs = [generation_pokemon_form_key,
      ForeignKeyConstraint [''game_id'', ''generation_id'']
        [(''games'', ''id''), (''games'', ''generation_id'')]]"
    using assms by (simp add: GamePokemonForm_class_def)
  have args: "table_args ((''__table_args__'', Args cs) # GamePokemonForm_class) = cs"
    by (simp add: table_args_def)
  have a: "\<not> constraint_ok example_storage (game_form_row 1 35 0 2)
      (ForeignKeyConstraint [''game_id'', ''generation_id'']
        [(''games'', ''id''), (''games'', ''generation_id'')])"
    by (simp add: references_def cell_def example_storage_def game_form_row_def)
  have b: "\<not> constraint_ok example_storage (game_form_row 1 999 7 1) generation_pokemon_form_key"
    by (simp add: generation_pokemon_form_key_def references_def cell_def example_storage_def
        game_form_row_def)
  have "\<not> accepts ((''__table_args__'', Args cs) # GamePokemonForm_class) example_storage
      (game_form_row 1 35 0 2)"
    unfolding accepts_def args using a by (simp add: cs)
  moreover
  have "\<not> accepts ((''__table_args__'', Args cs) # GamePokemonForm_class) example_storage
      (game_form_row 1 999 7 1)"
    unfolding accepts_def args using b by (simp add: cs)
  ultimately show ?thesis
    by (simp add: insert_row_def game_pokemon_form_row_as_given)
qed

section \<open>The \<^verbatim>\<open>types\<close> accessor\<close>

text \<open>
  C1. \<^verbatim>\<open>PokemonForm.types\<close> resolves one current generation by coalescing. With the primary
  key of \<^verbatim>\<open>generation_pokemon_forms\<close> in force and \<open>r\<close> a row of the form: when the session's
  generation is set and is the generation of \<open>r\<close>, \<^verbatim>\<open>types\<close> is the ordered type list of
  \<open>r\<close>, the row matching (pokemon_id, form_id, that generation); when the session's
  generation is not set and no row of the form has a greater generation than \<open>r\<close>,
  \<^verbatim>\<open>types\<close> is the ordered type list of \<open>r\<close>, the row of the maximum generation.
\<close>

theorem types_uses_current_generation:
  assumes pk: "gpf_primary_key db"
    and r: "r \<in> set (generation_pokemon_forms db)" "same_form self r"
  shows "(Session.generation_id s = Some (GenerationPokemonForm.generation_id r) \<longrightarrow>
            PokemonForm_types s db self = Some (GenerationPokemonForm.types r)) \<and>
         (Session.generation_id s = None \<and>
            (\<forall>x \<in> set (generation_pokemon_forms db). same_form self x \<longrightarrow>
               GenerationPokemonForm.generation_id x \<le> GenerationPokemonForm.generation_id r) \<longrightarrow>
            PokemonForm_types s db self = Some (GenerationPokemonForm.types r))"
proof (intro conjI impI)
  assume "Session.generation_id s = Some (GenerationPokemonForm.generation_id r)"
  then have "PokemonForm_current_generation_id_expression (Session.generation_id s) db self =
      Some (GenerationPokemonForm.generation_id r)"
    by (simp add: PokemonForm_current_generation_id_expression_def)
  from current_gpf_row [OF pk r this]
  show "PokemonForm_types s db self = Some (GenerationPokemonForm.types r)"
    by (simp add: PokemonForm_types_def)
next
  assume a: "Session.generation_id s = None \<and>
            (\<forall>x \<in> set (generation_pokemon_forms db). same_form self x \<longrightarrow>
               GenerationPokemonForm.generation_id x \<le> GenerationPokemonForm.generation_id r)"
  then have "PokemonForm_current_generation_id_expression (Session.generation_id s) db self =
      Some (GenerationPokemonForm.generation_id r)"
    using latest_gen_greatest [OF r]
    by (simp add: PokemonForm_current_generation_id_expression_def)
  from current_gpf_row [OF pk r this]
  show "PokemonForm_types s db self = Some (GenerationPokemonForm.types r)"
    by (simp add: PokemonForm_types_def)
qed

text \<open>
  The fixture of the spec: rows in generations 1, 3 and 5; with no generation set
  \<^verbatim>\<open>types\<close> is \<open>T5\<close>, with generation 3 set it is \<open>T3\<close>.
\<close>

theorem types_uses_current_generation_witness:
  "gpf_primary_key example_db \<and>
   example_gpf 5 [18] \<in> set (generation_pokemon_forms example_db) \<and>
   example_gpf 3 [1, 3] \<in> set (generation_pokemon_forms example_db) \<and>
   same_form example_form (example_gpf 5 [18]) \<and>
   same_form example_form (example_gpf 3 [1, 3]) \<and>
   PokemonForm_types \<lparr>Session.generation_id = None\<rparr> example_db example_form = Some [18] \<and>
   PokemonForm_types \<lparr>Session.generation_id = Some 3\<rparr> example_db example_form = Some [1, 3]"
proof -
  have pk: "gpf_primary_key example_db"
    by (simp add: gpf_primary_key_def example_db_def example_gpf_def gpf_key_def)
  have r5: "example_gpf 5 [18] \<in> set (generation_pokemon_forms example_db)"
    and r3: "example_gpf 3 [1, 3] \<in> set (generation_pokemon_forms example_db)"
    by (simp_all add: example_db_def)
  have f5: "same_form example_form (example_gpf 5 [18])"
    and f3: "same_form example_form (example_gpf 3 [1, 3])"
    by (simp_all add: same_form_def example_form_def example_gpf_def)
  have top: "\<forall>x \<in> set (generation_pokemon_forms example_db). same_form example_form x \<longrightarrow>
      GenerationPokemonForm.generation_id x \<le> GenerationPokemonForm.generation_id (example_gpf 5 [18])"
    by (simp add: example_db_def example_gpf_def same_form_def example_form_def)
  have "PokemonForm_types \<lparr>Session.generation_id = None\<rparr> example_db example_form = Some [18]"
    using types_uses_current_generation
      [OF pk r5 f5, of "\<lparr>Session.generation_id = None\<rparr>"] top
    by (simp add: example_gpf_def)
  moreover
  have "PokemonForm_types \<lparr>Session.generation_id = Some 3\<rparr> example_db example_form = Some [1, 3]"
    using types_uses_current_generation
      [OF pk r3 f3, of "\<lparr>Session.generation_id = Some 3\<rparr>"]
    by (simp add: example_gpf_def)
  ultimately show ?thesis using pk r5 r3 f5 f3 by simp
qed

text \<open>
  C4. When the resolved current generation (the session's, or the maximum generation of
  the form when the session has none) has no matching \<^verbatim>\<open>GenerationPokemonForm\<close> row for the
  form, \<^verbatim>\<open>_current_gpf\<close> is \<^verbatim>\<open>None\<close> and \<^verbatim>\<open>types\<close> is \<^verbatim>\<open>None\<close>: an absent type list, a value
  of the accessor and not an error. The resolved generation may itself be \<^verbatim>\<open>NULL\<close> (a form
  without rows and no generation set) or a generation that exists nowhere.
\<close>

theorem types_absent_without_matching_row:
  assumes "PokemonForm_current_generation_id_expression (Session.generation_id s) db self = current"
    and "\<not> list_ex (\<lambda>r. same_form self r \<and> current = Some (GenerationPokemonForm.generation_id r))
            (generation_pokemon_forms db)"
  shows "PokemonForm_current_gpf s db self = None \<and> PokemonForm_types s db self = None"
  using assms
  by (auto simp: PokemonForm_types_def PokemonForm_current_gpf_def find_None_iff list_ex_iff)

text \<open>
  The fixture of the spec with generation 2 set: the form has rows in generations 1, 3
  and 5 only, and \<^verbatim>\<open>types\<close> is \<^verbatim>\<open>None\<close>. So it is with generation 99, which no row of the
  dataset has, and for the form without rows when no generation is set.
\<close>

theorem types_absent_without_matching_row_witness:
  "PokemonForm_current_generation_id_expression (Some 2) example_db example_form = Some 2 \<and>
   \<not> list_ex (\<lambda>r. same_form example_form r \<and> Some 2 = Some (GenerationPokemonForm.generation_id r))
        (generation_pokemon_forms example_db) \<and>
   PokemonForm_current_gpf \<lparr>Session.generation_id = Some 2\<rparr> example_db example_form = None \<and>
   PokemonForm_types \<lparr>Session.generation_id = Some 2\<rparr> example_db example_form = None \<and>
   PokemonForm_types \<lparr>Session.generation_id = Some 99\<rparr> example_db example_form = None \<and>
   PokemonForm_current_generation_id_expression None example_db example_form_without_rows = None \<and>
   PokemonForm_types \<lparr>Session.generation_id = None\<rparr> example_db example_form_without_rows = None"
proof -
  have e: "PokemonForm_current_generation_id_expression
      (Session.generation_id \<lparr>Session.generation_id = Some g\<rparr>) example_db example_form = Some g"
    for g
    by (simp add: PokemonForm_current_generation_id_expression_def)
  have n2: "\<not> list_ex (\<lambda>r. same_form example_form r \<and>
        Some 2 = Some (GenerationPokemonForm.generation_id r))
      (generation_pokemon_forms example_db)"
    by (simp add: example_db_def example_gpf_def)
  have n99: "\<not> list_ex (\<lambda>r. same_form example_form r \<and>
        Some 99 = Some (GenerationPokemonForm.generation_id r))
      (generation_pokemon_forms example_db)"
    by (simp add: example_db_def example_gpf_def)
  have e0: "PokemonForm_current_generation_id_expression
      (Session.generation_id \<lparr>Session.generation_id = None\<rparr>) example_db
      example_form_without_rows = None"
    by (simp add: PokemonForm_current_generation_id_expression_def latest_gen_def
        example_db_def example_gpf_def example_form_without_rows_def same_form_def)
  have n0: "\<not> list_ex (\<lambda>r. same_form example_form_without_rows r \<and>
        None = Some (GenerationPokemonForm.generation_id r))
      (generation_pokemon_forms example_db)"
    by (simp add: list_ex_iff)
  show ?thesis
    using types_absent_without_matching_row [OF e n2]
      types_absent_without_matching_row [OF e n99]
      types_absent_without_matching_row [OF e0 n0] e [of 2] n2 e0
    by simp
qed

text \<open>
  C5. For every form that has no \<^verbatim>\<open>GenerationPokemonForm\<close> row at all, with no generation set
  on the session: the max-generation fallback that the lookup evaluates, the scalar
  subquery \<^verbatim>\<open>latest_gen\<close>, is total and gives \<^verbatim>\<open>NULL\<close> over the empty set of rows, the
  resolved generation is \<^verbatim>\<open>NULL\<close>, the join of \<^verbatim>\<open>_current_gpf\<close> selects no row, and \<^verbatim>\<open>types\<close>
  is \<^verbatim>\<open>None\<close>: a not-found result, a value of the accessor and no exception. The lookup
  never evaluates the instance side of the hybrid property.
\<close>

theorem types_of_form_without_rows:
  assumes "\<not> list_ex (same_form self) (generation_pokemon_forms db)"
    and "Session.generation_id s = None"
  shows "latest_gen db self = None \<and>
         PokemonForm_current_generation_id_expression (Session.generation_id s) db self = None \<and>
         PokemonForm_current_gpf s db self = None \<and>
         PokemonForm_types s db self = None"
proof -
  from assms(1) have empty: "filter (same_form self) (generation_pokemon_forms db) = []"
    by (simp add: filter_empty_conv list_ex_iff)
  then have latest: "latest_gen db self = None"
    by (simp add: latest_gen_def)
  with assms(2) have resolved:
    "PokemonForm_current_generation_id_expression (Session.generation_id s) db self = None"
    by (simp add: PokemonForm_current_generation_id_expression_def)
  then have gpf: "PokemonForm_current_gpf s db self = None"
    by (simp add: PokemonForm_current_gpf_def find_None_iff)
  then have "PokemonForm_types s db self = None"
    by (simp add: PokemonForm_types_def)
  with latest resolved gpf show ?thesis by simp
qed

text \<open>
  The form of the fixture's dataset that has no row: \<^verbatim>\<open>types\<close> is \<^verbatim>\<open>None\<close>.
\<close>

theorem types_of_form_without_rows_witness:
  "\<not> list_ex (same_form example_form_without_rows) (generation_pokemon_forms example_db) \<and>
   latest_gen example_db example_form_without_rows = None \<and>
   PokemonForm_current_gpf \<lparr>Session.generation_id = None\<rparr> example_db
     example_form_without_rows = None \<and>
   PokemonForm_types \<lparr>Session.generation_id = None\<rparr> example_db
     example_form_without_rows = None"
proof -
  have n: "\<not> list_ex (same_form example_form_without_rows)
      (generation_pokemon_forms example_db)"
    by (simp add: example_db_def example_gpf_def example_form_without_rows_def same_form_def)
  have s: "Session.generation_id \<lparr>Session.generation_id = None\<rparr> = None"
    by simp
  from types_of_form_without_rows [OF n s] n show ?thesis by simp
qed

section \<open>The \<^verbatim>\<open>all_types\<close> accessor\<close>

text \<open>
  C7. \<^verbatim>\<open>PokemonForm.all_types\<close> is the full mapping from the generations in which the form
  has a \<^verbatim>\<open>GenerationPokemonForm\<close> row to that generation's ordered type list: its keys are
  exactly the generations of the form's rows, one entry each, every row of the form is
  found under its generation with its own type list (the primary key of
  \<^verbatim>\<open>generation_pokemon_forms\<close> in force), and the mapping is the same whatever generation
  the session holds: nothing is coalesced.
\<close>

theorem all_types_full_mapping:
  assumes pk: "gpf_primary_key db"
  shows "fst ` set (PokemonForm_all_types s db self) =
           GenerationPokemonForm.generation_id `
             {r \<in> set (generation_pokemon_forms db). same_form self r} \<and>
         distinct (map fst (PokemonForm_all_types s db self)) \<and>
         (\<forall>r \<in> set (generation_pokemon_forms db). same_form self r \<longrightarrow>
            map_of (PokemonForm_all_types s db self) (GenerationPokemonForm.generation_id r) =
              Some (GenerationPokemonForm.types r)) \<and>
         PokemonForm_all_types s' db self = PokemonForm_all_types s db self"
proof (intro conjI ballI impI)
  show "fst ` set (PokemonForm_all_types s db self) =
      GenerationPokemonForm.generation_id `
        {r \<in> set (generation_pokemon_forms db). same_form self r}"
    by (simp add: all_types_keys by_generation_keys)
  have "map fst (PokemonForm_all_types s db self) = map fst (by_generation db self)"
    by (simp add: PokemonForm_all_types_def case_prod_beta comp_def)
  then show "distinct (map fst (PokemonForm_all_types s db self))"
    by (simp add: by_generation_def fold_update_distinct)
  show "PokemonForm_all_types s' db self = PokemonForm_all_types s db self"
    by (simp add: PokemonForm_all_types_def)
next
  fix r assume "r \<in> set (generation_pokemon_forms db)" and "same_form self r"
  then show "map_of (PokemonForm_all_types s db self) (GenerationPokemonForm.generation_id r) =
      Some (GenerationPokemonForm.types r)"
    by (simp add: all_types_lookup by_generation_row [OF pk])
qed

text \<open>
  The fixture of the spec: \<^verbatim>\<open>all_types\<close> is \<open>{1: T1, 3: T3, 5: T5}\<close>, with a generation set
  on the session or without.
\<close>

theorem all_types_full_mapping_witness:
  "gpf_primary_key example_db \<and>
   PokemonForm_all_types \<lparr>Session.generation_id = None\<rparr> example_db example_form =
     [(1, [1]), (3, [1, 3]), (5, [18])] \<and>
   PokemonForm_all_types \<lparr>Session.generation_id = Some 3\<rparr> example_db example_form =
     PokemonForm_all_types \<lparr>Session.generation_id = None\<rparr> example_db example_form \<and>
   map_of (PokemonForm_all_types \<lparr>Session.generation_id = None\<rparr> example_db example_form) 3 =
     Some [1, 3]"
proof -
  have pk: "gpf_primary_key example_db"
    by (simp add: gpf_primary_key_def example_db_def example_gpf_def gpf_key_def)
  have v: "PokemonForm_all_types \<lparr>Session.generation_id = None\<rparr> example_db example_form =
     [(1, [1]), (3, [1, 3]), (5, [18])]"
    by (simp add: PokemonForm_all_types_def by_generation_def example_db_def example_gpf_def
        example_form_def same_form_def)
  have r3: "example_gpf 3 [1, 3] \<in> set (generation_pokemon_forms example_db)"
    by (simp add: example_db_def)
  have f3: "same_form example_form (example_gpf 3 [1, 3])"
    by (simp add: same_form_def example_form_def example_gpf_def)
  from all_types_full_mapping [OF pk, of "\<lparr>Session.generation_id = None\<rparr>" example_form
      "\<lparr>Session.generation_id = Some 3\<rparr>"] r3 f3
  have "PokemonForm_all_types \<lparr>Session.generation_id = Some 3\<rparr> example_db example_form =
     PokemonForm_all_types \<lparr>Session.generation_id = None\<rparr> example_db example_form"
    and "map_of (PokemonForm_all_types \<lparr>Session.generation_id = None\<rparr> example_db example_form)
       (GenerationPokemonForm.generation_id (example_gpf 3 [1, 3])) =
     Some (GenerationPokemonForm.types (example_gpf 3 [1, 3]))"
    by blast+
  then show ?thesis using pk v by (simp add: example_gpf_def)
qed

section \<open>The two accessors together\<close>

text \<open>
  C10. The two accessors agree pointwise, the primary key of \<^verbatim>\<open>generation_pokemon_forms\<close> in
  force: with no generation set on the session and \<^verbatim>\<open>all_types\<close> not empty, \<^verbatim>\<open>types\<close> is
  the entry of \<^verbatim>\<open>all_types\<close> under its greatest key; with generation \<open>g\<close> set and \<open>g\<close> a key
  of \<^verbatim>\<open>all_types\<close>, \<^verbatim>\<open>types\<close> is the entry of \<^verbatim>\<open>all_types\<close> under \<open>g\<close>.
\<close>

theorem types_agrees_with_all_types:
  assumes pk: "gpf_primary_key db"
  shows "(Session.generation_id s = None \<and> PokemonForm_all_types s db self \<noteq> [] \<longrightarrow>
            PokemonForm_types s db self =
              map_of (PokemonForm_all_types s db self)
                (Max (fst ` set (PokemonForm_all_types s db self)))) \<and>
         (\<forall>g. Session.generation_id s = Some g \<and> g \<in> fst ` set (PokemonForm_all_types s db self) \<longrightarrow>
            PokemonForm_types s db self = map_of (PokemonForm_all_types s db self) g)"
proof (intro conjI allI impI)
  let ?keys = "fst ` set (PokemonForm_all_types s db self)"
  have keys: "?keys = GenerationPokemonForm.generation_id `
      set (filter (same_form self) (generation_pokemon_forms db))"
    by (simp add: all_types_keys by_generation_keys)
  {
    assume a: "Session.generation_id s = None \<and> PokemonForm_all_types s db self \<noteq> []"
    then have "?keys \<noteq> {}" by simp
    then have "Max ?keys \<in> ?keys" by (intro Max_in) simp_all
    then obtain r where r: "r \<in> set (generation_pokemon_forms db)" "same_form self r"
      and m: "GenerationPokemonForm.generation_id r = Max ?keys"
      unfolding keys by auto
    have "\<forall>x \<in> set (generation_pokemon_forms db). same_form self x \<longrightarrow>
        GenerationPokemonForm.generation_id x \<le> GenerationPokemonForm.generation_id r"
      unfolding m keys by (auto intro!: Max_ge)
    from latest_gen_greatest [OF r this] a
    have "PokemonForm_current_generation_id_expression (Session.generation_id s) db self =
        Some (GenerationPokemonForm.generation_id r)"
      by (simp add: PokemonForm_current_generation_id_expression_def)
    from current_gpf_row [OF pk r this]
    have "PokemonForm_types s db self = Some (GenerationPokemonForm.types r)"
      by (simp add: PokemonForm_types_def)
    moreover have "map_of (PokemonForm_all_types s db self) (Max ?keys) =
        Some (GenerationPokemonForm.types r)"
      using by_generation_row [OF pk r] by (simp add: all_types_lookup m [symmetric])
    ultimately show "PokemonForm_types s db self =
        map_of (PokemonForm_all_types s db self) (Max ?keys)"
      by simp
  }
  {
    fix g
    assume a: "Session.generation_id s = Some g \<and> g \<in> ?keys"
    then obtain r where r: "r \<in> set (generation_pokemon_forms db)" "same_form self r"
      and m: "GenerationPokemonForm.generation_id r = g"
      unfolding keys by auto
    from a m have "PokemonForm_current_generation_id_expression (Session.generation_id s) db self =
        Some (GenerationPokemonForm.generation_id r)"
      by (simp add: PokemonForm_current_generation_id_expression_def)
    from current_gpf_row [OF pk r this]
    have "PokemonForm_types s db self = Some (GenerationPokemonForm.types r)"
      by (simp add: PokemonForm_types_def)
    moreover have "map_of (PokemonForm_all_types s db self) g =
        Some (GenerationPokemonForm.types r)"
      using by_generation_row [OF pk r] by (simp add: all_types_lookup m [symmetric])
    ultimately show "PokemonForm_types s db self = map_of (PokemonForm_all_types s db self) g"
      by simp
  }
qed

text \<open>
  The fixture of the spec: with no generation set \<^verbatim>\<open>types\<close> is the entry under key 5, with
  generation 3 set it is the entry under key 3.
\<close>

theorem types_agrees_with_all_types_witness:
  "gpf_primary_key example_db \<and>
   PokemonForm_all_types \<lparr>Session.generation_id = None\<rparr> example_db example_form \<noteq> [] \<and>
   PokemonForm_types \<lparr>Session.generation_id = None\<rparr> example_db example_form =
     map_of (PokemonForm_all_types \<lparr>Session.generation_id = None\<rparr> example_db example_form)
       (Max (fst ` set (PokemonForm_all_types \<lparr>Session.generation_id = None\<rparr>
          example_db example_form))) \<and>
   Max (fst ` set (PokemonForm_all_types \<lparr>Session.generation_id = None\<rparr>
          example_db example_form)) = 5 \<and>
   3 \<in> fst ` set (PokemonForm_all_types \<lparr>Session.generation_id = Some 3\<rparr>
          example_db example_form) \<and>
   PokemonForm_types \<lparr>Session.generation_id = Some 3\<rparr> example_db example_form =
     map_of (PokemonForm_all_types \<lparr>Session.generation_id = Some 3\<rparr> example_db example_form) 3"
proof -
  have pk: "gpf_primary_key example_db"
    by (simp add: gpf_primary_key_def example_db_def example_gpf_def gpf_key_def)
  have v: "PokemonForm_all_types s example_db example_form = [(1, [1]), (3, [1, 3]), (5, [18])]"
    for s
    by (simp add: PokemonForm_all_types_def by_generation_def example_db_def example_gpf_def
        example_form_def same_form_def)
  have ne: "PokemonForm_all_types \<lparr>Session.generation_id = None\<rparr> example_db example_form \<noteq> []"
    by (simp add: v)
  have k3: "3 \<in> fst ` set (PokemonForm_all_types \<lparr>Session.generation_id = Some 3\<rparr>
      example_db example_form)"
    by (simp add: v)
  have m: "Max (fst ` set (PokemonForm_all_types \<lparr>Session.generation_id = None\<rparr>
      example_db example_form)) = 5"
    by (simp add: v)
  from types_agrees_with_all_types [OF pk, of "\<lparr>Session.generation_id = None\<rparr>" example_form] ne
  have a: "PokemonForm_types \<lparr>Session.generation_id = None\<rparr> example_db example_form =
     map_of (PokemonForm_all_types \<lparr>Session.generation_id = None\<rparr> example_db example_form)
       (Max (fst ` set (PokemonForm_all_types \<lparr>Session.generation_id = None\<rparr>
          example_db example_form)))"
    by simp
  from types_agrees_with_all_types [OF pk, of "\<lparr>Session.generation_id = Some 3\<rparr>" example_form] k3
  have b: "PokemonForm_types \<lparr>Session.generation_id = Some 3\<rparr> example_db example_form =
     map_of (PokemonForm_all_types \<lparr>Session.generation_id = Some 3\<rparr> example_db example_form) 3"
    by simp
  from pk ne a m k3 b show ?thesis by blast
qed

section \<open>The two sides of the hybrid property\<close>

text \<open>
  C2. A form without any \<^verbatim>\<open>GenerationPokemonForm\<close> row, no generation set on the session:
  the in-memory side of \<^verbatim>\<open>_current_generation_id\<close> evaluates
  \<^verbatim>\<open>max(self._by_generation.keys())\<close> over no key and raises \<^verbatim>\<open>ValueError\<close>, where the SQL
  expression is \<^verbatim>\<open>NULL\<close>, so the two sides do not resolve the same result in every database
  state. Everywhere else they agree (\<open>paths_agree_on_generation\<close>, \<open>in_memory_raises\<close>).
\<close>

theorem paths_differ_on_empty_form:
  "PokemonForm_current_generation_id \<lparr>Session.generation_id = None\<rparr> example_db
      example_form_without_rows = Inl ValueError \<and>
   PokemonForm_current_generation_id_expression
      (Session.generation_id \<lparr>Session.generation_id = None\<rparr>) example_db
      example_form_without_rows = None"
  by (simp add: PokemonForm_current_generation_id_def by_generation_def example_db_def
      example_gpf_def example_form_without_rows_def same_form_def
      PokemonForm_current_generation_id_expression_def latest_gen_def)

section \<open>Names by language\<close>



section \<open>The foreign keys of \<^verbatim>\<open>GamePokemonForm\<close>\<close>

text \<open>
  C3. The class body of \<^verbatim>\<open>GamePokemonForm\<close> holds the composite foreign key
  (game_id, generation_id) to \<^verbatim>\<open>games\<close> under the attribute \<^verbatim>\<open>__tableargs__\<close>, which the
  declarative extension does not read: the table has no table-level constraint. In the
  small dataset game 1 belongs to generation 1, and the insert of a \<^verbatim>\<open>GamePokemonForm\<close> row
  of game 1 with generation 2 is accepted.
\<close>

theorem game_form_generation_not_enforced:
  "table_args GamePokemonForm_class = [] \<and>
   example_storage ''games'' = [[(''id'', SqlInt 1), (''generation_id'', SqlInt 1)]] \<and>
   insert_row GamePokemonForm_class example_storage (game_form_row 1 35 0 2) =
     Inr (example_storage(''game_pokemon_forms'' := [game_form_row 1 35 0 2]))"
  unfolding insert_row_def game_pokemon_form_row_as_given Let_def
  by (simp add: accepts_def table_args_def GamePokemonForm_class_def column_def tablename_def
      column_ok_def primary_key_ok_def references_def cell_def example_storage_def
      game_form_row_def)

text \<open>
  C6. For the same reason the composite foreign key of \<^verbatim>\<open>GamePokemonForm\<close> that chains to
  \<^verbatim>\<open>pokemon_forms\<close> is not declared either, and its columns \<^verbatim>\<open>pokemon_id\<close> and \<^verbatim>\<open>form_id\<close>
  carry no foreign key of their own: the insert of a \<^verbatim>\<open>GamePokemonForm\<close> row whose
  (pokemon_id, form_id) = (999, 7) has no row in \<^verbatim>\<open>pokemon_forms\<close> is accepted. The half of
  the claim about \<^verbatim>\<open>GenerationPokemonForm\<close> holds
  (\<open>generation_pokemon_form_needs_form\<close>).
\<close>

theorem game_form_without_form_accepted:
  "\<not> list_ex (\<lambda>x. cell x ''pokemon_id'' = SqlInt 999 \<and> cell x ''form_id'' = SqlInt 7)
        (example_storage ''pokemon_forms'') \<and>
   insert_row GamePokemonForm_class example_storage (game_form_row 1 999 7 1) =
     Inr (example_storage(''game_pokemon_forms'' := [game_form_row 1 999 7 1]))"
  unfolding insert_row_def game_pokemon_form_row_as_given Let_def
  by (simp add: accepts_def table_args_def GamePokemonForm_class_def column_def tablename_def
      column_ok_def primary_key_ok_def references_def cell_def example_storage_def
      game_form_row_def)

end
